theory Spec2Isabelle
  imports Main "HOL-Library.Word"
begin

section \<open>Snapline: the upload, feed and delete handlers of app/app.py\<close>

text \<open>
  The three request handlers of \<^verbatim>\<open>src/app/app.py\<close> (\<^verbatim>\<open>upload_file\<close>,
  \<^verbatim>\<open>get_feed\<close>, \<^verbatim>\<open>delete_post\<close>) are embedded as HOL functions over an explicit
  state: the rows of the Post and User tables, the set of paths that exist in the
  filesystem, and whether the inbound upload stream has been closed. Everything the
  handlers obtain from outside (the temporary directory, the media store's answer, whether
  a commit raises, the identifier and timestamp the database assigns) is a field of the
  record \<open>env\<close>, so each exit path of a handler is a branch of its model.
\<close>

subsection \<open>Data\<close>

type_synonym uuid = "128 word"

text \<open>
  Exceptions. \<^verbatim>\<open>HTTPException(status_code, detail)\<close> is FastAPI's; it is a subclass of
  \<^verbatim>\<open>Exception\<close>, so \<^verbatim>\<open>except Exception\<close> catches it like any other. \<open>Error\<close>
  stands for every other exception (a \<^verbatim>\<open>ValueError\<close>, a database error, an I/O error),
  with a text naming it. Both handlers build the detail of their final error as
  \<^verbatim>\<open>str(e)\<close>; that string depends on the library version, so it is kept as the term
  \<open>Str e\<close>.
\<close>

datatype exn = HTTPException int detail | Error string
and detail = Detail string | Str exn

text \<open>
  A row of the Post table (\<^verbatim>\<open>app.db.Post\<close>) and of the User table. The fields carry a
  prefix because \<^verbatim>\<open>id\<close> and \<^verbatim>\<open>url\<close> occur in several classes. \<open>p_created_at\<close>
  is a point in time, in microseconds.
\<close>

record post =
  p_id :: uuid
  p_user_id :: uuid
  p_caption :: string
  p_url :: string
  p_file_type :: string
  p_file_name :: string
  p_created_at :: int

record user =
  u_id :: uuid
  u_email :: string

text \<open>The inbound \<^verbatim>\<open>UploadFile\<close>: its file name, and its content type, which may be absent.\<close>

record upload =
  filename :: string
  content_type :: "string option"

text \<open>What \<^verbatim>\<open>imagekit.upload_file\<close> returns when it returns.\<close>

record upload_result =
  http_status_code :: int
  url :: string
  name :: string

text \<open>
  How staging ends: \<^verbatim>\<open>NamedTemporaryFile\<close> raises before any file exists, or the file is
  created and \<^verbatim>\<open>copyfileobj\<close> raises, or both succeed.
\<close>

datatype stage_outcome = CreateRaises exn | CopyRaises exn | Staged

record env =
  tempdir :: string
  random_chars :: string
  stage :: stage_outcome
  store :: "exn + upload_result"
  UUID :: "string \<Rightarrow> exn + uuid"
  execute :: "exn option"
  commit :: "exn option"
  refresh :: "exn option"
  new_id :: uuid
  now :: int

record state =
  posts :: "post list"
  users :: "user list"
  files :: "string set"
  closed :: bool

subsection \<open>upload\_file\<close>

text \<open>
  \<^verbatim>\<open>os.path.splitext(p)[1]\<close> on a POSIX path: the part of the last component from its last
  dot on, unless only dots come before that dot.
\<close>

definition splitext_ext :: "string \<Rightarrow> string" where
  "splitext_ext p =
     (let base = rev (takeWhile (\<lambda>c. c \<noteq> CHR ''/'') (rev p));
          ext = rev (takeWhile (\<lambda>c. c \<noteq> CHR ''.'') (rev base));
          stem = take (length base - length ext - 1) base
      in if CHR ''.'' \<in> set base \<and> filter (\<lambda>c. c \<noteq> CHR ''.'') stem \<noteq> []
         then CHR ''.'' # ext else [])"

text \<open>
  The name \<^verbatim>\<open>NamedTemporaryFile(delete=False, suffix=...)\<close> gives its file: the temporary
  directory, the prefix \<^verbatim>\<open>tmp\<close>, random characters, the suffix.
\<close>

definition temp_file_name :: "env \<Rightarrow> upload \<Rightarrow> string" where
  "temp_file_name e file =
     tempdir e @ ''/'' @ ''tmp'' @ random_chars e @ splitext_ext (filename file)"

definition file_created :: "stage_outcome \<Rightarrow> bool" where
  "file_created s = (case s of CreateRaises x \<Rightarrow> False | CopyRaises x \<Rightarrow> True | Staged \<Rightarrow> True)"

text \<open>\<^verbatim>\<open>s.startswith(prefix)\<close>.\<close>

definition startswith :: "string \<Rightarrow> string \<Rightarrow> bool" where
  "startswith s pre = (take (length pre) s = pre)"

text \<open>\<^verbatim>\<open>caption : str = Form("")\<close>: an absent form field is the empty caption.\<close>

definition Form :: "string \<Rightarrow> string option \<Rightarrow> string" where
  "Form dflt field = (case field of None \<Rightarrow> dflt | Some v \<Rightarrow> v)"

text \<open>
  The body of the \<^verbatim>\<open>try\<close> block (lines 83 to 107). It yields what the block does (raise
  \<open>Inl e\<close>, return a post \<open>Inr (Some p)\<close>, or fall off its end \<open>Inr None\<close>), the
  value of \<^verbatim>\<open>temp_file_path\<close> at that moment, and the state. A commit that succeeds
  inserts the row, with the identifier and the timestamp the database assigns.
\<close>

definition upload_try ::
  "env \<Rightarrow> upload \<Rightarrow> string \<Rightarrow> user \<Rightarrow> state \<Rightarrow> (exn + post option) \<times> string option \<times> state" where
  "upload_try e file caption usr st =
     (let temp_file_path = temp_file_name e file;
          st1 = st\<lparr>files := insert temp_file_path (files st)\<rparr>
      in case stage e of
           CreateRaises x \<Rightarrow> (Inl x, None, st)
         | CopyRaises x \<Rightarrow> (Inl x, Some temp_file_path, st1)
         | Staged \<Rightarrow>
            (case store e of
               Inl x \<Rightarrow> (Inl x, Some temp_file_path, st1)
             | Inr upload_result \<Rightarrow>
                if http_status_code upload_result = 200 then
                  (case content_type file of
                     None \<Rightarrow> (Inl (Error ''AttributeError''), Some temp_file_path, st1)
                   | Some ct \<Rightarrow>
                      (let new_post = \<lparr>p_id = new_id e,
                                       p_user_id = u_id usr,
                                       p_caption = caption,
                                       p_url = url upload_result,
                                       p_file_type = (if startswith ct ''video/'' then ''video'' else ''image''),
                                       p_file_name = name upload_result,
                                       p_created_at = now e\<rparr>
                       in case commit e of
                            Some x \<Rightarrow> (Inl x, Some temp_file_path, st1)
                          | None \<Rightarrow>
                             (let st2 = st1\<lparr>posts := posts st1 @ [new_post]\<rparr>
                              in case refresh e of
                                   Some x \<Rightarrow> (Inl x, Some temp_file_path, st2)
                                 | None \<Rightarrow> (Inr (Some new_post), Some temp_file_path, st2))))
                else (Inr None, Some temp_file_path, st1)))"

text \<open>
  The \<^verbatim>\<open>finally\<close> block (lines 113 to 116): the path is unlinked when it is set, not
  empty and exists; then the upload stream is closed.
\<close>

definition upload_finally :: "string option \<Rightarrow> state \<Rightarrow> state" where
  "upload_finally temp_file_path st =
     (let st1 = (case temp_file_path of
                   None \<Rightarrow> st
                 | Some p \<Rightarrow> if p \<noteq> [] \<and> p \<in> files st then st\<lparr>files := files st - {p}\<rparr> else st)
      in st1\<lparr>closed := True\<rparr>)"

text \<open>
  The handler: the \<^verbatim>\<open>try\<close> block, the \<^verbatim>\<open>except Exception\<close> clause that turns every
  exception into \<^verbatim>\<open>HTTPException(500, str(e))\<close>, and the \<^verbatim>\<open>finally\<close> block.
  \<open>Inr None\<close> is the handler returning \<^verbatim>\<open>None\<close>: a response with status 200 and
  the body \<^verbatim>\<open>null\<close>.
\<close>

definition upload_file ::
  "env \<Rightarrow> upload \<Rightarrow> string option \<Rightarrow> user \<Rightarrow> state \<Rightarrow> (exn + post option) \<times> state" where
  "upload_file e file caption_field usr st =
     (case upload_try e file (Form [] caption_field) usr st of
        (r, temp_file_path, st1) \<Rightarrow>
          ((case r of
              Inl x \<Rightarrow> Inl (HTTPException 500 (Str x))
            | Inr v \<Rightarrow> Inr v),
           upload_finally temp_file_path st1))"

text \<open>
  Modelled from the spec: the Media Store Client of section 4.2, whose code
  (\<^verbatim>\<open>app/images.py\<close> and the \<^verbatim>\<open>imagekitio\<close> client it builds) is not in the
  source. Given the remote store's answer, it returns the answer when the status is 200
  and raises one upload-failed error for any other status.
\<close>

definition media_store_client :: "upload_result \<Rightarrow> exn + upload_result" where
  "media_store_client answer =
     (if http_status_code answer = 200 then Inr answer else Inl (Error ''upload failed''))"

subsection \<open>get\_feed\<close>

text \<open>
  \<^verbatim>\<open>select(Post).order_by(Post.created_at.desc())\<close>: the database returns the rows by
  falling \<^verbatim>\<open>created_at\<close>. Rows with equal keys keep their table order here; SQL leaves
  their order open.
\<close>

definition order_by_created_at_desc :: "post list \<Rightarrow> post list" where
  "order_by_created_at_desc rows = sort_key (\<lambda>p. - p_created_at p) rows"

text \<open>\<^verbatim>\<open>{u.id : u.email for u in users}\<close>: a later row replaces an earlier one with its key.\<close>

definition user_dict :: "user list \<Rightarrow> (uuid \<rightharpoonup> string)" where
  "user_dict us = fold (\<lambda>u m. m(u_id u \<mapsto> u_email u)) us Map.empty"

text \<open>\<^verbatim>\<open>d.get(k, default)\<close>.\<close>

definition dict_get :: "('k \<rightharpoonup> 'v) \<Rightarrow> 'k \<Rightarrow> 'v \<Rightarrow> 'v" where
  "dict_get d k dflt = (case d k of None \<Rightarrow> dflt | Some v \<Rightarrow> v)"

text \<open>
  The strings \<^verbatim>\<open>str(post.id)\<close>, \<^verbatim>\<open>str(post.user_id)\<close> and
  \<^verbatim>\<open>post.created_at.isoformat()\<close> are kept as terms over the value they render.
\<close>

datatype rendering = str uuid | isoformat int

text \<open>One dictionary of \<^verbatim>\<open>posts_data\<close> (lines 136 to 146), key by key.\<close>

record entry =
  e_id :: rendering
  e_user_id :: rendering
  e_caption :: string
  e_url :: string
  e_file_type :: string
  e_file_name :: string
  e_created_at :: rendering
  is_owner :: bool
  email :: string

definition feed_entry :: "(uuid \<rightharpoonup> string) \<Rightarrow> user \<Rightarrow> post \<Rightarrow> entry" where
  "feed_entry d usr p =
     \<lparr>e_id = str (p_id p),
      e_user_id = str (p_user_id p),
      e_caption = p_caption p,
      e_url = p_url p,
      e_file_type = p_file_type p,
      e_file_name = p_file_name p,
      e_created_at = isoformat (p_created_at p),
      is_owner = (p_user_id p = u_id usr),
      email = dict_get d (p_user_id p) ''Unknown''\<rparr>"

text \<open>
  The handler has no \<^verbatim>\<open>try\<close>: an exception of \<^verbatim>\<open>session.execute\<close> leaves it as it is.
  Its result \<^verbatim>\<open>{"posts" : posts_data}\<close> is the list of its key and value pairs.
\<close>

definition get_feed :: "env \<Rightarrow> state \<Rightarrow> user \<Rightarrow> exn + (string \<times> entry list) list" where
  "get_feed e st usr =
     (case execute e of
        Some x \<Rightarrow> Inl x
      | None \<Rightarrow>
         (let rows = order_by_created_at_desc (posts st);
              d = user_dict (users st);
              posts_data = map (feed_entry d usr) rows
          in Inr [(''posts'', posts_data)]))"

subsection \<open>delete\_post\<close>

datatype json = JBool bool | JString string

text \<open>
  The body of the \<^verbatim>\<open>try\<close> block (lines 154 to 167). \<^verbatim>\<open>uuid.UUID(post_id)\<close> raises on
  a malformed identifier; the query returns the first row with that identifier;
  \<^verbatim>\<open>session.delete\<close> followed by a commit that succeeds removes the row with the post's
  primary key.
\<close>

definition delete_try ::
  "env \<Rightarrow> string \<Rightarrow> user \<Rightarrow> state \<Rightarrow> (exn + (string \<times> json) list) \<times> state" where
  "delete_try e post_id usr st =
     (case UUID e post_id of
        Inl x \<Rightarrow> (Inl x, st)
      | Inr post_uuid \<Rightarrow>
         (case execute e of
            Some x \<Rightarrow> (Inl x, st)
          | None \<Rightarrow>
             (case find (\<lambda>p. p_id p = post_uuid) (posts st) of
                None \<Rightarrow> (Inl (HTTPException 404 (Detail ''Post not found'')), st)
              | Some found \<Rightarrow>
                 if p_user_id found \<noteq> u_id usr then
                   (Inl (HTTPException 403 (Detail ''You dont have permission to delete this post'')), st)
                 else
                   (case commit e of
                      Some x \<Rightarrow> (Inl x, st)
                    | None \<Rightarrow>
                       (Inr [(''success'', JBool True),
                             (''messsage'', JString ''Post deleted successfully'')],
                        st\<lparr>posts := filter (\<lambda>p. p_id p \<noteq> p_id found) (posts st)\<rparr>)))))"

text \<open>
  The handler: the \<^verbatim>\<open>try\<close> block and its \<^verbatim>\<open>except Exception\<close> clause (lines 168 and
  169), which receives every exception raised in the block, the two
  \<^verbatim>\<open>HTTPException\<close>s of lines 159 and 162 among them.
\<close>

definition delete_post ::
  "env \<Rightarrow> string \<Rightarrow> user \<Rightarrow> state \<Rightarrow> (exn + (string \<times> json) list) \<times> state" where
  "delete_post e post_id usr st =
     (case delete_try e post_id usr st of
        (Inl x, st1) \<Rightarrow> (Inl (HTTPException 500 (Str x)), st1)
      | (Inr v, st1) \<Rightarrow> (Inr v, st1))"

subsection \<open>Concrete requests\<close>

text \<open>
  Two callers, one post of each, and an environment in which every outside call
  succeeds; the other environments change one field of it. \<open>example_UUID\<close> gives the
  answers of \<^verbatim>\<open>uuid.UUID\<close> on the identifiers used below.
\<close>

definition caller_a :: user where
  "caller_a = \<lparr>u_id = 1, u_email = ''a@example.com''\<rparr>"

definition caller_b :: user where
  "caller_b = \<lparr>u_id = 2, u_email = ''b@example.com''\<rparr>"

definition cat_png :: upload where
  "cat_png = \<lparr>filename = ''cat.png'', content_type = Some ''image/png''\<rparr>"

definition clip_mp4 :: upload where
  "clip_mp4 = \<lparr>filename = ''clip.mp4'', content_type = Some ''video/mp4''\<rparr>"

definition post_of_a :: post where
  "post_of_a = \<lparr>p_id = 7, p_user_id = 1, p_caption = ''hi'', p_url = ''https://ik.example/cat.png'',
                 p_file_type = ''image'', p_file_name = ''cat_x1.png'', p_created_at = 100\<rparr>"

definition post_of_b :: post where
  "post_of_b = \<lparr>p_id = 8, p_user_id = 2, p_caption = [], p_url = ''https://ik.example/clip.mp4'',
                 p_file_type = ''video'', p_file_name = ''clip_x2.mp4'', p_created_at = 200\<rparr>"

definition example_UUID :: "string \<Rightarrow> exn + uuid" where
  "example_UUID s =
     (if s = ''00000000-0000-0000-0000-000000000007'' then Inr 7
      else if s = ''00000000-0000-0000-0000-000000000008'' then Inr 8
      else if s = ''00000000-0000-0000-0000-000000000009'' then Inr 9
      else Inl (Error ''ValueError: badly formed hexadecimal UUID string''))"

definition stored :: "int \<Rightarrow> upload_result" where
  "stored code = \<lparr>http_status_code = code, url = ''https://ik.example/new'', name = ''new_x3''\<rparr>"

definition env_ok :: env where
  "env_ok = \<lparr>tempdir = ''/tmp'', random_chars = ''k3v9q2'', stage = Staged,
             store = Inr (stored 200), UUID = example_UUID, execute = None, commit = None,
             refresh = None, new_id = 9, now = 300\<rparr>"

definition state0 :: state where
  "state0 = \<lparr>posts = [post_of_a, post_of_b], users = [caller_a, caller_b], files = {}, closed = False\<rparr>"

section \<open>Properties\<close>

subsection \<open>The temporary file and the Post table under upload\_file\<close>

lemma temp_file_name_not_empty: "temp_file_name e file \<noteq> []"
  by (simp add: temp_file_name_def)

lemma files_upload_finally:
  "files (upload_finally (Some p) st) = (if p = [] then files st else files st - {p})"
  by (auto simp: upload_finally_def)

lemma files_upload_finally_None: "files (upload_finally None st) = files st"
  by (simp add: upload_finally_def)

lemma posts_upload_finally: "posts (upload_finally t st) = posts st"
  by (simp add: upload_finally_def split: option.splits)

lemma upload_try_path:
  "upload_try e file c usr st = (r, t, st1) \<Longrightarrow>
     (file_created (stage e) \<longrightarrow> t = Some (temp_file_name e file) \<and> files st1 = insert (temp_file_name e file) (files st))
   \<and> (\<not> file_created (stage e) \<longrightarrow> t = None \<and> files st1 = files st)"
  by (auto simp: upload_try_def file_created_def Let_def
           split: stage_outcome.splits sum.splits if_splits option.splits)

text \<open>
  When the media store client raises, or staging does, the handler answers with status 500
  and the Post table is as before: the path through \<^verbatim>\<open>except Exception\<close>.
\<close>

lemma upload_file_store_raises_is_500:
  assumes "stage e = Staged" and "store e = Inl x"
  shows "fst (upload_file e file cap usr st) = Inl (HTTPException 500 (Str x)) \<and>
         posts (snd (upload_file e file cap usr st)) = posts st"
  using assms
  by (simp add: upload_file_def upload_try_def Let_def posts_upload_finally)

text \<open>
  Every error of the handler has status 500.
\<close>

lemma upload_file_error_is_500:
  "fst (upload_file e file cap usr st) = Inl x \<Longrightarrow> \<exists>d. x = HTTPException 500 d"
  by (auto simp: upload_file_def split: prod.splits sum.splits)

text \<open>
  When every outside call succeeds, the status is 200 and the content type is present, the
  handler returns a post: successful uploads exist.
\<close>

lemma upload_file_succeeds:
  assumes "stage e = Staged" and "store e = Inr r" and "http_status_code r = 200"
    and "content_type file = Some ct" and "commit e = None" and "refresh e = None"
  shows "\<exists>p. fst (upload_file e file cap usr st) = Inr (Some p)"
  using assms
  by (simp add: upload_file_def upload_try_def Let_def)

text \<open>
  Claim C1 (the remote media store answers with a status other than success: the endpoint
  gives an upload failure with status 500, and no Post is created). The media store client
  turns such an answer into an exception; the handler's \<^verbatim>\<open>except Exception\<close> clause
  turns that into \<^verbatim>\<open>HTTPException(500, str(e))\<close>, and no row is added. When staging
  has already raised, the error carries that exception instead.
\<close>

theorem upload_file_store_failure_is_500:
  assumes "http_status_code answer \<noteq> 200" and "store e = media_store_client answer"
  shows "fst (upload_file e file cap usr st) =
           Inl (HTTPException 500 (Str (case stage e of
                                          CreateRaises x \<Rightarrow> x
                                        | CopyRaises x \<Rightarrow> x
                                        | Staged \<Rightarrow> Error ''upload failed''))) \<and>
         posts (snd (upload_file e file cap usr st)) = posts st"
  using assms
  by (simp add: upload_file_def upload_try_def Let_def posts_upload_finally media_store_client_def
           split: stage_outcome.splits)

theorem upload_file_store_failure_is_500_witness:
  "http_status_code (stored 500) \<noteq> 200 \<and>
   store (env_ok\<lparr>store := media_store_client (stored 500)\<rparr>) = media_store_client (stored 500) \<and>
   fst (upload_file (env_ok\<lparr>store := media_store_client (stored 500)\<rparr>) cat_png (Some ''hi'') caller_a state0) =
     Inl (HTTPException 500 (Str (Error ''upload failed''))) \<and>
   posts (snd (upload_file (env_ok\<lparr>store := media_store_client (stored 500)\<rparr>) cat_png (Some ''hi'') caller_a state0)) =
     [post_of_a, post_of_b]"
proof -
  have h1: "http_status_code (stored 500) \<noteq> 200"
    by (simp add: stored_def)
  have h2: "store (env_ok\<lparr>store := media_store_client (stored 500)\<rparr>) = media_store_client (stored 500)"
    by simp
  have s: "stage (env_ok\<lparr>store := media_store_client (stored 500)\<rparr>) = Staged"
    by (simp add: env_ok_def)
  have p: "posts state0 = [post_of_a, post_of_b]"
    by (simp add: state0_def)
  show ?thesis
    using h1 h2 upload_file_store_failure_is_500 [OF h1 h2, of cat_png "Some ''hi''" caller_a state0]
    by (simp add: s p)
qed

text \<open>
  Claim C4 (on every exit path of the upload operation the staging file created for the call
  no longer exists afterwards). For every environment, so for every exit path: no path of
  the filesystem is new after the call, and when \<^verbatim>\<open>NamedTemporaryFile\<close> created
  its file, that file's path does not exist after the call. \<^verbatim>\<open>os.unlink\<close> of a path
  that exists is taken to remove it.
\<close>

theorem upload_file_removes_temp_file:
  "files (snd (upload_file e file cap usr st)) \<subseteq> files st \<and>
   (file_created (stage e) \<longrightarrow>
      temp_file_name e file \<notin> files (snd (upload_file e file cap usr st)))"
proof -
  obtain r t st1 where u: "upload_try e file (Form [] cap) usr st = (r, t, st1)"
    by (cases "upload_try e file (Form [] cap) usr st") auto
  have s: "snd (upload_file e file cap usr st) = upload_finally t st1"
    by (simp add: upload_file_def u)
  show ?thesis
  proof (cases "file_created (stage e)")
    case True
    with upload_try_path [OF u]
    have "t = Some (temp_file_name e file)"
      and "files st1 = insert (temp_file_name e file) (files st)" by auto
    then show ?thesis
      using True by (auto simp: s files_upload_finally temp_file_name_not_empty)
  next
    case False
    with upload_try_path [OF u] have "t = None" and "files st1 = files st" by auto
    then show ?thesis using False by (simp add: s files_upload_finally_None)
  qed
qed

text \<open>
  The theorem at three exit paths of one request: success, the media store raising, the
  copy into the temporary file raising.
\<close>

theorem upload_file_removes_temp_file_witness:
  "file_created (stage env_ok) \<and>
   temp_file_name env_ok cat_png = ''/tmp/tmpk3v9q2.png'' \<and>
   ''/tmp/tmpk3v9q2.png'' \<notin> files (snd (upload_file env_ok cat_png None caller_a state0)) \<and>
   file_created (stage (env_ok\<lparr>store := Inl (Error ''ConnectionError'')\<rparr>)) \<and>
   ''/tmp/tmpk3v9q2.png'' \<notin>
     files (snd (upload_file (env_ok\<lparr>store := Inl (Error ''ConnectionError'')\<rparr>) cat_png None caller_a state0)) \<and>
   file_created (stage (env_ok\<lparr>stage := CopyRaises (Error ''OSError'')\<rparr>)) \<and>
   ''/tmp/tmpk3v9q2.png'' \<notin>
     files (snd (upload_file (env_ok\<lparr>stage := CopyRaises (Error ''OSError'')\<rparr>) cat_png None caller_a state0))"
proof -
  have n: "temp_file_name env_ok cat_png = ''/tmp/tmpk3v9q2.png''"
    by (simp add: temp_file_name_def env_ok_def cat_png_def splitext_ext_def)
  have n2: "temp_file_name (env_ok\<lparr>store := Inl (Error ''ConnectionError'')\<rparr>) cat_png = ''/tmp/tmpk3v9q2.png''"
    by (simp add: temp_file_name_def env_ok_def cat_png_def splitext_ext_def)
  have n3: "temp_file_name (env_ok\<lparr>stage := CopyRaises (Error ''OSError'')\<rparr>) cat_png = ''/tmp/tmpk3v9q2.png''"
    by (simp add: temp_file_name_def env_ok_def cat_png_def splitext_ext_def)
  have c1: "file_created (stage env_ok)"
    by (simp add: file_created_def env_ok_def)
  have c2: "file_created (stage (env_ok\<lparr>store := Inl (Error ''ConnectionError'')\<rparr>))"
    by (simp add: file_created_def env_ok_def)
  have c3: "file_created (stage (env_ok\<lparr>stage := CopyRaises (Error ''OSError'')\<rparr>))"
    by (simp add: file_created_def env_ok_def)
  show ?thesis
    using c1 c2 c3 n
      upload_file_removes_temp_file [of env_ok cat_png None caller_a state0]
      upload_file_removes_temp_file [of "env_ok\<lparr>store := Inl (Error ''ConnectionError'')\<rparr>" cat_png None caller_a state0]
      upload_file_removes_temp_file [of "env_ok\<lparr>stage := CopyRaises (Error ''OSError'')\<rparr>" cat_png None caller_a state0]
    unfolding n n2 n3 by blast
qed

text \<open>
  Claim C5 (a successful upload creates exactly one Post; its \<^verbatim>\<open>user_id\<close> is the
  caller's id, its caption the given one, empty by default, its \<^verbatim>\<open>url\<close> and
  \<^verbatim>\<open>file_name\<close> those of the media store's response). A successful upload is a call
  that returns the post.
\<close>

theorem upload_file_success_creates_one_post:
  assumes "upload_file e file cap usr st = (Inr (Some p), st')"
  shows "posts st' = posts st @ [p] \<and> p_user_id p = u_id usr \<and>
         p_caption p = (case cap of None \<Rightarrow> [] | Some c \<Rightarrow> c) \<and>
         (\<exists>r. store e = Inr r \<and> http_status_code r = 200 \<and> p_url p = url r \<and> p_file_name p = name r)"
  using assms
  by (auto simp: upload_file_def upload_try_def Let_def Form_def posts_upload_finally
           split: stage_outcome.splits sum.splits if_splits option.splits)

theorem upload_file_success_creates_one_post_witness:
  "upload_file env_ok cat_png (Some ''hi'') caller_a state0 =
     (Inr (Some \<lparr>p_id = 9, p_user_id = 1, p_caption = ''hi'', p_url = ''https://ik.example/new'',
                 p_file_type = ''image'', p_file_name = ''new_x3'', p_created_at = 300\<rparr>),
      state0\<lparr>posts := [post_of_a, post_of_b,
                 \<lparr>p_id = 9, p_user_id = 1, p_caption = ''hi'', p_url = ''https://ik.example/new'',
                  p_file_type = ''image'', p_file_name = ''new_x3'', p_created_at = 300\<rparr>],
              closed := True\<rparr>) \<and>
   posts (state0\<lparr>posts := [post_of_a, post_of_b,
                 \<lparr>p_id = 9, p_user_id = 1, p_caption = ''hi'', p_url = ''https://ik.example/new'',
                  p_file_type = ''image'', p_file_name = ''new_x3'', p_created_at = 300\<rparr>],
              closed := True\<rparr>) =
     posts state0 @ [\<lparr>p_id = 9, p_user_id = 1, p_caption = ''hi'', p_url = ''https://ik.example/new'',
                  p_file_type = ''image'', p_file_name = ''new_x3'', p_created_at = 300\<rparr>] \<and>
   (\<exists>r. store env_ok = Inr r \<and> http_status_code r = 200 \<and>
        ''https://ik.example/new'' = url r \<and> ''new_x3'' = name r)"
proof -
  have h: "upload_file env_ok cat_png (Some ''hi'') caller_a state0 =
     (Inr (Some \<lparr>p_id = 9, p_user_id = 1, p_caption = ''hi'', p_url = ''https://ik.example/new'',
                 p_file_type = ''image'', p_file_name = ''new_x3'', p_created_at = 300\<rparr>),
      state0\<lparr>posts := [post_of_a, post_of_b,
                 \<lparr>p_id = 9, p_user_id = 1, p_caption = ''hi'', p_url = ''https://ik.example/new'',
                  p_file_type = ''image'', p_file_name = ''new_x3'', p_created_at = 300\<rparr>],
              closed := True\<rparr>)"
    by (simp add: upload_file_def upload_try_def upload_finally_def env_ok_def stored_def
          state0_def temp_file_name_def Let_def Form_def cat_png_def caller_a_def startswith_def)
  show ?thesis
    using h upload_file_success_creates_one_post [OF h] by simp
qed

text \<open>
  Claim C6 (the created Post's \<^verbatim>\<open>file_type\<close> is \<^verbatim>\<open>video\<close> exactly when the
  inbound content type starts with \<^verbatim>\<open>video/\<close>, and \<^verbatim>\<open>image\<close> otherwise).
  Whenever the call adds a row \<open>p\<close> to the Post table, the content type was present
  and decides the \<^verbatim>\<open>file_type\<close> of \<open>p\<close>.
\<close>

theorem upload_file_file_type:
  assumes "posts (snd (upload_file e file cap usr st)) = posts st @ [p]"
  shows "\<exists>ct. content_type file = Some ct \<and>
           (p_file_type p = ''video'' \<longleftrightarrow> startswith ct ''video/'') \<and>
           (p_file_type p = ''image'' \<longleftrightarrow> \<not> startswith ct ''video/'')"
  using assms
  by (auto simp: upload_file_def upload_try_def Let_def posts_upload_finally
           split: stage_outcome.splits sum.splits if_splits option.splits)

theorem upload_file_file_type_witness:
  "posts (snd (upload_file env_ok clip_mp4 None caller_b state0)) =
     posts state0 @ [\<lparr>p_id = 9, p_user_id = 2, p_caption = [], p_url = ''https://ik.example/new'',
                      p_file_type = ''video'', p_file_name = ''new_x3'', p_created_at = 300\<rparr>] \<and>
   content_type clip_mp4 = Some ''video/mp4'' \<and> startswith ''video/mp4'' ''video/'' \<and>
   (\<exists>ct. content_type clip_mp4 = Some ct \<and>
      (p_file_type \<lparr>p_id = 9, p_user_id = 2, p_caption = [], p_url = ''https://ik.example/new'',
                      p_file_type = ''video'', p_file_name = ''new_x3'', p_created_at = 300\<rparr> = ''video''
         \<longleftrightarrow> startswith ct ''video/''))"
proof -
  have h: "posts (snd (upload_file env_ok clip_mp4 None caller_b state0)) =
     posts state0 @ [\<lparr>p_id = 9, p_user_id = 2, p_caption = [], p_url = ''https://ik.example/new'',
                      p_file_type = ''video'', p_file_name = ''new_x3'', p_created_at = 300\<rparr>]"
    by (simp add: upload_file_def upload_try_def upload_finally_def env_ok_def stored_def
          state0_def temp_file_name_def Let_def Form_def clip_mp4_def caller_b_def startswith_def)
  have s: "startswith ''video/mp4'' ''video/''"
    by (simp add: startswith_def)
  show ?thesis
    using h s upload_file_file_type [OF h] by (auto simp: clip_mp4_def)
qed

text \<open>
  Claim C10 (the media store's response carries a status other than 200, other 2xx codes
  included, and nothing raises: the handler creates no Post, raises no error and returns
  \<^verbatim>\<open>None\<close>).
\<close>

theorem upload_file_non_200_returns_none:
  assumes "stage e = Staged" and "store e = Inr r" and "http_status_code r \<noteq> 200"
  shows "fst (upload_file e file cap usr st) = Inr None \<and>
         posts (snd (upload_file e file cap usr st)) = posts st"
  using assms
  by (simp add: upload_file_def upload_try_def Let_def posts_upload_finally)

text \<open>
  The theorem at status 201.
\<close>

theorem upload_file_non_200_returns_none_witness:
  "stage (env_ok\<lparr>store := Inr (stored 201)\<rparr>) = Staged \<and>
   store (env_ok\<lparr>store := Inr (stored 201)\<rparr>) = Inr (stored 201) \<and>
   http_status_code (stored 201) \<noteq> 200 \<and>
   fst (upload_file (env_ok\<lparr>store := Inr (stored 201)\<rparr>) cat_png (Some ''hi'') caller_a state0) = Inr None \<and>
   posts (snd (upload_file (env_ok\<lparr>store := Inr (stored 201)\<rparr>) cat_png (Some ''hi'') caller_a state0)) =
     posts state0"
proof -
  have h1: "stage (env_ok\<lparr>store := Inr (stored 201)\<rparr>) = Staged"
    by (simp add: env_ok_def)
  have h2: "store (env_ok\<lparr>store := Inr (stored 201)\<rparr>) = Inr (stored 201)"
    by simp
  have h3: "http_status_code (stored 201) \<noteq> 200"
    by (simp add: stored_def)
  show ?thesis
    using h1 h2 h3 upload_file_non_200_returns_none [OF h1 h2 h3] by simp
qed

subsection \<open>The feed\<close>

lemma order_by_created_at_desc_sorted:
  "sorted_wrt (\<lambda>a b. p_created_at b \<le> p_created_at a) (order_by_created_at_desc rows)"
proof -
  have "sorted (map (\<lambda>p. - p_created_at p) (order_by_created_at_desc rows))"
    by (simp add: order_by_created_at_desc_def)
  then show ?thesis by (simp add: sorted_wrt_map)
qed

lemma order_by_created_at_desc_distinct:
  assumes "distinct (map p_created_at rows)"
  shows "distinct (map p_created_at (order_by_created_at_desc rows))"
  using assms by (simp add: order_by_created_at_desc_def distinct_map)

lemma strictly_falling:
  "sorted_wrt (\<lambda>a b. f b \<le> (f a :: int)) xs \<Longrightarrow> distinct (map f xs) \<Longrightarrow>
   sorted_wrt (\<lambda>a b. f b < f a) xs"
proof (induction xs)
  case Nil
  then show ?case by simp
next
  case (Cons a xs)
  have "f b < f a" if "b \<in> set xs" for b
  proof -
    from Cons.prems(1) that have "f b \<le> f a" by simp
    moreover from Cons.prems(2) have "f a \<notin> f ` set xs" by simp
    with that have "f b \<noteq> f a" by (metis imageI)
    ultimately show ?thesis by simp
  qed
  with Cons show ?case by simp
qed

lemma set_order_by_created_at_desc: "set (order_by_created_at_desc rows) = set rows"
  by (simp add: order_by_created_at_desc_def)

text \<open>
  Claim C7 (over stored posts with pairwise distinct \<^verbatim>\<open>created_at\<close>, the sequence
  \<^verbatim>\<open>get_feed\<close> returns is sorted by falling \<^verbatim>\<open>created_at\<close>). The entries of
  the response show, in their order, the \<^verbatim>\<open>created_at\<close> and the \<^verbatim>\<open>id\<close> of the
  rows of the query; the rows are the stored posts, each with a \<^verbatim>\<open>created_at\<close>
  strictly greater than every later one; so each entry's \<^verbatim>\<open>created_at\<close> renders a
  time strictly greater than that of every later entry.
\<close>

theorem get_feed_sorted_desc:
  assumes "distinct (map p_created_at (posts st))" and "get_feed e st usr = Inr resp"
  shows "\<exists>es. resp = [(''posts'', es)] \<and>
           map e_created_at es =
             map (\<lambda>p. isoformat (p_created_at p)) (order_by_created_at_desc (posts st)) \<and>
           map e_id es = map (\<lambda>p. str (p_id p)) (order_by_created_at_desc (posts st)) \<and>
           sorted_wrt (\<lambda>a b. p_created_at b < p_created_at a) (order_by_created_at_desc (posts st)) \<and>
           set (order_by_created_at_desc (posts st)) = set (posts st) \<and>
           sorted_wrt (\<lambda>a b. \<exists>s t. e_created_at a = isoformat s \<and> e_created_at b = isoformat t \<and> t < s) es"
proof -
  let ?rows = "order_by_created_at_desc (posts st)"
  let ?es = "map (feed_entry (user_dict (users st)) usr) ?rows"
  have r: "resp = [(''posts'', ?es)]"
    using assms(2) by (auto simp: get_feed_def Let_def split: option.splits)
  have c: "map e_created_at ?es = map (\<lambda>p. isoformat (p_created_at p)) ?rows"
    by (simp add: feed_entry_def)
  have i: "map e_id ?es = map (\<lambda>p. str (p_id p)) ?rows"
    by (simp add: feed_entry_def)
  have s: "sorted_wrt (\<lambda>a b. p_created_at b < p_created_at a) ?rows"
    using strictly_falling [OF order_by_created_at_desc_sorted
        order_by_created_at_desc_distinct [OF assms(1)]] .
  have "sorted_wrt (\<lambda>a b. \<exists>s t. e_created_at (feed_entry (user_dict (users st)) usr a) = isoformat s \<and>
                               e_created_at (feed_entry (user_dict (users st)) usr b) = isoformat t \<and> t < s) ?rows"
    by (rule sorted_wrt_mono_rel [OF _ s]) (simp add: feed_entry_def)
  then have t: "sorted_wrt (\<lambda>a b. \<exists>s t. e_created_at a = isoformat s \<and> e_created_at b = isoformat t \<and> t < s) ?es"
    by (simp add: sorted_wrt_map)
  show ?thesis
    using r c i s t set_order_by_created_at_desc by blast
qed

theorem get_feed_sorted_desc_witness:
  "distinct (map p_created_at (posts state0)) \<and>
   (\<exists>es. get_feed env_ok state0 caller_a = Inr [(''posts'', es)] \<and>
      map e_created_at es = [isoformat 200, isoformat 100] \<and>
      map e_id es = [str 8, str 7] \<and>
      sorted_wrt (\<lambda>a b. \<exists>s t. e_created_at a = isoformat s \<and> e_created_at b = isoformat t \<and> t < s) es)"
proof -
  have d: "distinct (map p_created_at (posts state0))"
    by (simp add: state0_def post_of_a_def post_of_b_def)
  have o: "order_by_created_at_desc (posts state0) = [post_of_b, post_of_a]"
    by (simp add: order_by_created_at_desc_def sort_key_def state0_def post_of_a_def post_of_b_def)
  have g: "get_feed env_ok state0 caller_a =
     Inr [(''posts'', map (feed_entry (user_dict (users state0)) caller_a) [post_of_b, post_of_a])]"
    by (simp add: get_feed_def Let_def o env_ok_def)
  have v: "map (\<lambda>p. isoformat (p_created_at p)) [post_of_b, post_of_a] = [isoformat 200, isoformat 100]"
       "map (\<lambda>p. str (p_id p)) [post_of_b, post_of_a] = [str 8, str 7]"
    by (simp_all add: post_of_a_def post_of_b_def)
  from get_feed_sorted_desc [OF d g] obtain es where
    r: "[(''posts'', map (feed_entry (user_dict (users state0)) caller_a) [post_of_b, post_of_a])] = [(''posts'', es)]"
    and c: "map e_created_at es = map (\<lambda>p. isoformat (p_created_at p)) (order_by_created_at_desc (posts state0))"
    and i: "map e_id es = map (\<lambda>p. str (p_id p)) (order_by_created_at_desc (posts state0))"
    and t: "sorted_wrt (\<lambda>a b. \<exists>s t. e_created_at a = isoformat s \<and> e_created_at b = isoformat t \<and> t < s) es"
    by blast
  from r g have g': "get_feed env_ok state0 caller_a = Inr [(''posts'', es)]"
    by simp
  from c have c': "map e_created_at es = [isoformat 200, isoformat 100]"
    by (simp only: o v)
  from i have i': "map e_id es = [str 8, str 7]"
    by (simp only: o v)
  show ?thesis
    by (intro conjI exI [of _ es] d g' c' i' t)
qed

text \<open>
  Claim C8 (in every feed response, \<^verbatim>\<open>is_owner\<close> of a post is true exactly when
  the post's \<^verbatim>\<open>user_id\<close> is the caller's id). Entry by entry, in the order of the
  response.
\<close>

theorem get_feed_is_owner:
  assumes "get_feed e st usr = Inr resp"
  shows "\<exists>es. resp = [(''posts'', es)] \<and>
           map is_owner es = map (\<lambda>p. p_user_id p = u_id usr) (order_by_created_at_desc (posts st)) \<and>
           map e_user_id es = map (\<lambda>p. str (p_user_id p)) (order_by_created_at_desc (posts st))"
  using assms
  by (auto simp: get_feed_def Let_def feed_entry_def split: option.splits)

theorem get_feed_is_owner_witness:
  "get_feed env_ok state0 caller_b =
     Inr [(''posts'', map (feed_entry (user_dict (users state0)) caller_b) [post_of_b, post_of_a])] \<and>
   map is_owner (map (feed_entry (user_dict (users state0)) caller_b) [post_of_b, post_of_a]) =
     [True, False]"
proof -
  have o: "order_by_created_at_desc (posts state0) = [post_of_b, post_of_a]"
    by (simp add: order_by_created_at_desc_def sort_key_def state0_def post_of_a_def post_of_b_def)
  have g: "get_feed env_ok state0 caller_b =
     Inr [(''posts'', map (feed_entry (user_dict (users state0)) caller_b) [post_of_b, post_of_a])]"
    by (simp add: get_feed_def Let_def o env_ok_def)
  have u: "map (\<lambda>p. p_user_id p = u_id caller_b) [post_of_b, post_of_a] = [True, False]"
    by (simp add: post_of_a_def post_of_b_def caller_b_def)
  show ?thesis
    using g u get_feed_is_owner [OF g] by (simp add: o)
qed

subsection \<open>delete\_post\<close>

text \<open>
  Every error of \<^verbatim>\<open>delete_post\<close> has status 500: the \<^verbatim>\<open>except Exception\<close>
  clause also receives the handler's own 404 and 403. The three outcomes for a well-formed
  identifier follow, for every state.
\<close>

lemma delete_post_error_is_500:
  "fst (delete_post e post_id usr st) = Inl x \<Longrightarrow> \<exists>d. x = HTTPException 500 d"
  by (auto simp: delete_post_def split: prod.splits sum.splits)

lemma delete_post_not_owner:
  assumes "UUID e post_id = Inr u" and "execute e = None"
    and "find (\<lambda>p. p_id p = u) (posts st) = Some found" and "p_user_id found \<noteq> u_id usr"
  shows "delete_post e post_id usr st =
           (Inl (HTTPException 500 (Str (HTTPException 403
              (Detail ''You dont have permission to delete this post'')))), st)"
  using assms by (simp add: delete_post_def delete_try_def)

lemma delete_post_not_found:
  assumes "UUID e post_id = Inr u" and "execute e = None"
    and "find (\<lambda>p. p_id p = u) (posts st) = None"
  shows "delete_post e post_id usr st =
           (Inl (HTTPException 500 (Str (HTTPException 404 (Detail ''Post not found'')))), st)"
  using assms by (simp add: delete_post_def delete_try_def)

lemma delete_post_owner:
  assumes "UUID e post_id = Inr u" and "execute e = None" and "commit e = None"
    and "find (\<lambda>p. p_id p = u) (posts st) = Some found" and "p_user_id found = u_id usr"
  shows "delete_post e post_id usr st =
           (Inr [(''success'', JBool True), (''messsage'', JString ''Post deleted successfully'')],
            st\<lparr>posts := filter (\<lambda>p. p_id p \<noteq> u) (posts st)\<rparr>)"
  using assms by (auto simp: delete_post_def delete_try_def dest: find_Some_iff [THEN iffD1])

text \<open>
  Claim C2 (the post exists and belongs to another identity: the operation returns a 403
  error with the message \<^verbatim>\<open>You dont have permission to delete this post\<close>, and the
  post stays). Caller B deletes the post of caller A: the post stays, but the error that
  leaves the handler has status 500; the 403 raised at line 162 is the exception it wraps.
\<close>

theorem delete_by_other_caller_is_500:
  "delete_post env_ok ''00000000-0000-0000-0000-000000000007'' caller_b state0 =
     (Inl (HTTPException 500 (Str (HTTPException 403
        (Detail ''You dont have permission to delete this post'')))), state0)"
  by (simp add: delete_post_def delete_try_def env_ok_def example_UUID_def state0_def
        post_of_a_def post_of_b_def caller_b_def)

text \<open>
  Claim C3 (a well-formed identifier that matches no post: the operation returns a 404
  error with the message \<^verbatim>\<open>Post not found\<close>). No post has the identifier 9: the
  error that leaves the handler has status 500; the 404 raised at line 159 is the exception
  it wraps.
\<close>

theorem delete_missing_post_is_500:
  "delete_post env_ok ''00000000-0000-0000-0000-000000000009'' caller_a state0 =
     (Inl (HTTPException 500 (Str (HTTPException 404 (Detail ''Post not found'')))), state0)"
  by (simp add: delete_post_def delete_try_def env_ok_def example_UUID_def state0_def
        post_of_a_def post_of_b_def caller_a_def)

text \<open>
  Claim C9 (a successful \<^verbatim>\<open>deletePost\<close> returns the acknowledgment with the keys
  \<^verbatim>\<open>success\<close> and \<^verbatim>\<open>message\<close>). Caller A deletes the own post: the second key
  of the dictionary returned at line 167 is spelt \<^verbatim>\<open>messsage\<close>, and the key
  \<^verbatim>\<open>message\<close> is absent.
\<close>

theorem delete_own_post_acknowledgment:
  "delete_post env_ok ''00000000-0000-0000-0000-000000000007'' caller_a state0 =
     (Inr [(''success'', JBool True), (''messsage'', JString ''Post deleted successfully'')],
      state0\<lparr>posts := [post_of_b]\<rparr>) \<and>
   map_of (projr (fst (delete_post env_ok ''00000000-0000-0000-0000-000000000007'' caller_a state0)))
      ''message'' = None"
  by (simp add: delete_post_def delete_try_def env_ok_def example_UUID_def state0_def
        post_of_a_def post_of_b_def caller_a_def)

end
